theory Spec2Isabelle
  imports Main "HOL-Library.Sublist"
begin

section \<open>Python strings\<close>

text \<open>
  A Python \<open>str\<close> is a sequence of Unicode code points; it is modelled as the list of
  their numbers. \<open>lit\<close> turns an ASCII literal of the source into such a list. The
  characters that an Isabelle string literal cannot hold are named: the line feed, the
  two quotes, and the en dash (U+2013) that the prompt of \<open>analyze_with_gpt\<close> uses
  in its ranges.
\<close>

type_synonym pystr = "nat list"

definition lit :: "string \<Rightarrow> pystr" where
  "lit s = map of_char s"

definition NL :: pystr where
  "NL = [10]"

definition DQ :: pystr where
  "DQ = [34]"

definition SQ :: pystr where
  "SQ = [39]"

definition en_dash :: pystr where
  "en_dash = [8211]"

text \<open>\<open>sep.join(xs)\<close>.\<close>

fun join :: "pystr \<Rightarrow> pystr list \<Rightarrow> pystr" where
  "join sep [] = []"
| "join sep [x] = x"
| "join sep (x # y # ys) = x @ sep @ join sep (y # ys)"

text \<open>
  \<open>str.isspace\<close> on one code point: the Unicode white space that \<open>str.strip()\<close>
  removes when it is called without an argument.
\<close>

definition isspace :: "nat \<Rightarrow> bool" where
  "isspace c \<longleftrightarrow>
     (9 \<le> c \<and> c \<le> 13) \<or> (28 \<le> c \<and> c \<le> 32) \<or> c = 133 \<or> c = 160 \<or> c = 5760 \<or>
     (8192 \<le> c \<and> c \<le> 8202) \<or> c = 8232 \<or> c = 8233 \<or> c = 8239 \<or> c = 8287 \<or>
     c = 12288"

definition strip :: "pystr \<Rightarrow> pystr" where
  "strip s = rev (dropWhile isspace (rev (dropWhile isspace s)))"

section \<open>Decoded JSON\<close>

text \<open>
  The values that \<open>json.loads\<close> and Flask's \<open>get_json\<close> return and that
  \<open>jsonify\<close> writes: \<open>None\<close>, a bool, an int, a float, a \<open>str\<close>, a list, or a
  dict with string keys (an association list; a key is looked up at its first entry).
  A float is kept by its \<open>repr\<close>, the text that \<open>str()\<close> gives for it, so that no
  floating-point arithmetic is needed: the code only formats a float and tests whether
  it is zero.
\<close>

datatype json =
    JNull
  | JBool bool
  | JInt int
  | JFloat pystr
  | JStr pystr
  | JArr "json list"
  | JObj "(pystr \<times> json) list"

text \<open>Python's truth value of such a value, as \<open>if act:\<close> tests it.\<close>

fun truthy :: "json \<Rightarrow> bool" where
  "truthy JNull = False"
| "truthy (JBool b) = b"
| "truthy (JInt i) = (i \<noteq> 0)"
| "truthy (JFloat r) = (r \<noteq> lit ''0.0'' \<and> r \<noteq> lit ''-0.0'')"
| "truthy (JStr s) = (s \<noteq> [])"
| "truthy (JArr xs) = (xs \<noteq> [])"
| "truthy (JObj kvs) = (kvs \<noteq> [])"

text \<open>
  What an f-string puts for \<open>{v}\<close>, that is \<open>str(v)\<close>. A string stands for itself.
  The decimal digits of an int and the names of \<open>None\<close>, \<open>True\<close> and \<open>False\<close>
  are written out. The text of a list or of a dict depends on \<open>repr\<close> of the strings
  inside it, hence on Unicode's table of printable characters; it is the parameter
  \<open>container\<close>, and every theorem holds whatever that function is.
\<close>

fun digits :: "nat \<Rightarrow> pystr" where
  "digits n = (if n < 10 then [48 + n] else digits (n div 10) @ [48 + n mod 10])"

declare digits.simps [simp del]

definition str_int :: "int \<Rightarrow> pystr" where
  "str_int i = (if i < 0 then 45 # digits (nat (- i)) else digits (nat i))"

fun py_str :: "(json \<Rightarrow> pystr) \<Rightarrow> json \<Rightarrow> pystr" where
  "py_str container JNull = lit ''None''"
| "py_str container (JBool b) = (if b then lit ''True'' else lit ''False'')"
| "py_str container (JInt i) = str_int i"
| "py_str container (JFloat r) = r"
| "py_str container (JStr s) = s"
| "py_str container v = container v"

section \<open>The prompt of \<open>analyze_with_gpt\<close>\<close>

text \<open>
  The f-string of lines 53 to 95 of \<open>src/app.py\<close>, cut at its two placeholders:
  \<open>prompt_head\<close> is the text before \<open>{context_str}\<close>, \<open>prompt_rubric\<close> the text
  between \<open>{context_str}\<close> and \<open>{text}\<close>, \<open>prompt_tail\<close> the text after
  \<open>{text}\<close>. Each row of a definition is one line of the source.
\<close>

definition prompt_head :: pystr where
  "prompt_head = concat
    [NL,
     lit ''You are a literary critic and linguistics assistant analyzing **psychological madness** in Shakespeare'', SQ, lit ''s *King Lear*.'', NL,
     NL]"

definition prompt_rubric :: pystr where
  "prompt_rubric = concat
    [NL,
     lit ''Your job is to rate the **mental / emotional disturbance of the speaker**, not just how broken the syntax looks.'', NL,
     NL,
     lit ''Key idea:'', NL,
     lit ''- In *King Lear*, a speaker can sound controlled, formal, and rhetorically polished **and still be very mad** if their judgment is warped, cruel, impulsive, or detached from reality.'', NL,
     lit ''- If you recognize Lear speaking (e.g. dividing the kingdom, cursing his daughters, raging in the storm, or philosophizing on the heath), you should usually assign a **high madness_score**, often 70+.'', NL,
     lit ''- Storm / heath / hut scenes in Acts 3'', en_dash, lit ''4 where Lear'', SQ, lit ''s mind openly unravels can deserve **very high** scores (80'', en_dash, lit ''100).'', NL,
     lit ''- Other characters (Cordelia, Kent, etc.) can have low scores if they sound clear, grounded, and compassionate.'', NL,
     NL,
     lit ''You will output:'', NL,
     lit ''1. An overall **madness_score** (0'', en_dash, lit ''100), where:'', NL,
     lit ''   - 0 = mentally stable, balanced, clear judgment'', NL,
     lit ''   - 100 = extremely disturbed, unstable, or unmoored'', NL,
     NL,
     lit ''2. Three sub-scores in [0,1] that *explain* the flavor of madness.'', NL,
     lit ''   They are interpretive dimensions, not strict mathematical measures:'', NL,
     NL,
     lit ''- semantic_disorganization:'', NL,
     lit ''  * Higher = bigger jumps in thought, conflicting images, weak logical progression.'', NL,
     lit ''  * For controlled but mad Lear, this can still be moderate'', en_dash, lit ''high (e.g. 0.5'', en_dash, lit ''0.8) if the content is emotionally or morally deranged.'', NL,
     NL,
     lit ''- graph_randomness:'', NL,
     lit ''  * Higher = more tangled flow of ideas, looping back, abrupt transitions, or piling up of images.'', NL,
     NL,
     lit ''- lexical_weirdness:'', NL,
     lit ''  * Higher = strange or theatrical pronoun use, vocatives, curses, heavy questions/exclamations, and emotionally charged diction.'', NL,
     NL,
     lit ''Use your knowledge of the play and of Lear'', SQ, lit ''s arc. The numbers are just a way to encode your critical judgment.'', NL,
     NL,
     lit ''Now analyze this passage:'', NL,
     NL,
     DQ, DQ, DQ]"

definition prompt_tail :: pystr where
  "prompt_tail = concat
    [DQ, DQ, DQ, NL,
     NL,
     lit ''Return ONLY a JSON object with these keys:'', NL,
     lit ''- '', DQ, lit ''madness_score'', DQ, lit '' (number 0'', en_dash, lit ''100)'', NL,
     lit ''- '', DQ, lit ''semantic_disorganization'', DQ, lit '' (number 0'', en_dash, lit ''1)'', NL,
     lit ''- '', DQ, lit ''graph_randomness'', DQ, lit '' (number 0'', en_dash, lit ''1)'', NL,
     lit ''- '', DQ, lit ''lexical_weirdness'', DQ, lit '' (number 0'', en_dash, lit ''1)'', NL,
     lit ''- '', DQ, lit ''comment'', DQ, lit '' (short 1'', en_dash, lit ''3 sentence explanation)'', NL]"


text \<open>Lines 44 to 51: the context line, from the identifiers that are truthy.\<close>

definition context_bits :: "(json \<Rightarrow> pystr) \<Rightarrow> json \<Rightarrow> json \<Rightarrow> pystr list" where
  "context_bits container act scene =
     (if truthy act then [lit ''Act '' @ py_str container act] else []) @
     (if truthy scene then [lit ''Scene '' @ py_str container scene] else [])"

definition context_str :: "(json \<Rightarrow> pystr) \<Rightarrow> json \<Rightarrow> json \<Rightarrow> pystr" where
  "context_str container act scene =
     (if context_bits container act scene \<noteq> []
      then lit ''Context: this passage is from King Lear, '' @
           join (lit '', '') (context_bits container act scene) @ lit ''.'' @ NL
      else [])"

definition prompt :: "(json \<Rightarrow> pystr) \<Rightarrow> pystr \<Rightarrow> json \<Rightarrow> json \<Rightarrow> pystr" where
  "prompt container text act scene =
     prompt_head @ context_str container act scene @ prompt_rubric @ text @ prompt_tail"

section \<open>The scene files\<close>

subsection \<open>Reading text\<close>

text \<open>
  \<open>Path.read_text(encoding="utf-8")\<close> decodes the bytes of the file as UTF-8, strictly
  (an overlong form, a surrogate, a value above U+10FFFF or a cut sequence raises
  \<open>UnicodeDecodeError\<close>), and, as it opens the file in text mode with the default
  \<open>newline=None\<close>, turns every \<open>\r\n\<close> and every remaining \<open>\r\<close> into \<open>\n\<close>.
  A byte is a \<open>char\<close>; the decoder works on the numbers of the bytes.
\<close>

type_synonym bytes = "char list"

definition cont :: "nat \<Rightarrow> bool" where
  "cont b \<longleftrightarrow> 128 \<le> b \<and> b \<le> 191"

fun utf8_decode :: "nat list \<Rightarrow> pystr option" where
  "utf8_decode [] = Some []"
| "utf8_decode (b # bs) =
     (if b < 128 then map_option ((#) b) (utf8_decode bs)
      else if 194 \<le> b \<and> b \<le> 223 then
        (case bs of
           b1 # r \<Rightarrow>
             if cont b1
             then map_option ((#) ((b - 192) * 64 + (b1 - 128))) (utf8_decode r)
             else None
         | _ \<Rightarrow> None)
      else if 224 \<le> b \<and> b \<le> 239 then
        (case bs of
           b1 # b2 # r \<Rightarrow>
             if (if b = 224 then 160 else 128) \<le> b1 \<and> b1 \<le> (if b = 237 then 159 else 191) \<and>
                cont b2
             then map_option ((#) ((b - 224) * 4096 + (b1 - 128) * 64 + (b2 - 128)))
                    (utf8_decode r)
             else None
         | _ \<Rightarrow> None)
      else if 240 \<le> b \<and> b \<le> 244 then
        (case bs of
           b1 # b2 # b3 # r \<Rightarrow>
             if (if b = 240 then 144 else 128) \<le> b1 \<and> b1 \<le> (if b = 244 then 143 else 191) \<and>
                cont b2 \<and> cont b3
             then map_option
                    ((#) ((b - 240) * 262144 + (b1 - 128) * 4096 + (b2 - 128) * 64 + (b3 - 128)))
                    (utf8_decode r)
             else None
         | _ \<Rightarrow> None)
      else None)"

fun universal_newlines :: "pystr \<Rightarrow> pystr" where
  "universal_newlines [] = []"
| "universal_newlines (c # cs) =
     (if c = 13 then
        (case cs of
           d # ds \<Rightarrow> if d = 10 then 10 # universal_newlines ds else 10 # universal_newlines cs
         | [] \<Rightarrow> [10])
      else c # universal_newlines cs)"

text \<open>
  \<open>str.encode("utf-8")\<close>, the inverse direction; \<open>None\<close> where Python raises (a
  surrogate) or where the number is no code point. The code does not call it: it states
  what "byte for byte" means for a text that was read from a file.
\<close>

definition utf8_encode1 :: "nat \<Rightarrow> nat list option" where
  "utf8_encode1 c =
     (if c < 128 then Some [c]
      else if c < 2048 then Some [192 + c div 64, 128 + c mod 64]
      else if 55296 \<le> c \<and> c \<le> 57343 then None
      else if c < 65536 then Some [224 + c div 4096, 128 + c div 64 mod 64, 128 + c mod 64]
      else if c < 1114112 then
        Some [240 + c div 262144, 128 + c div 4096 mod 64, 128 + c div 64 mod 64, 128 + c mod 64]
      else None)"

fun utf8_encode :: "pystr \<Rightarrow> nat list option" where
  "utf8_encode [] = Some []"
| "utf8_encode (c # cs) =
     (case utf8_encode1 c of
        None \<Rightarrow> None
      | Some bs \<Rightarrow> map_option ((@) bs) (utf8_encode cs))"

definition str_encode :: "pystr \<Rightarrow> bytes option" where
  "str_encode t = map_option (map char_of) (utf8_encode t)"

subsection \<open>Exceptions\<close>

text \<open>
  The exceptions that the code meets. \<open>FileNotFoundError m\<close> is the one that
  \<open>load_scene_text\<close> raises itself, with its message. \<open>OSError e\<close> is an error of
  the operating system by its number; \<open>ValueError\<close> is what \<open>os.stat\<close> raises for a
  path that it cannot hand to the operating system.
\<close>

datatype errno = ENOENT | ENOTDIR | ENAMETOOLONG

datatype exn =
    FileNotFoundError pystr
  | OSError errno
  | ValueError
  | IsADirectoryError
  | UnicodeDecodeError
  | BadRequest
  | AttributeError
  | APIError
  | IndexError
  | TypeError
  | JSONDecodeError

subsection \<open>The file system\<close>

text \<open>
  A tree of directories and regular files, the root directory at the top, and the
  working directory of the process as the names that lead to it from the root. A
  relative path is resolved as Linux does, component by component from the working
  directory: every component but the last must lead to a directory, \<open>..\<close> goes to
  the parent (the root is its own parent), a component that is missing gives
  \<open>ENOENT\<close>, one that is looked up in a regular file gives \<open>ENOTDIR\<close>, and one of
  more than \<open>NAME_MAX\<close> bytes that is looked up in a directory gives
  \<open>ENAMETOOLONG\<close>. The components are those of a pathlib path, which has no empty
  component and no component \<open>.\<close>. Symbolic links and permissions are not modelled.
\<close>

datatype node = File bytes | Dir "(pystr \<times> node) list"

record filesystem =
  root :: node
  cwd :: "pystr list"

definition NAME_MAX :: nat where
  "NAME_MAX = 255"

definition PATH_MAX :: nat where
  "PATH_MAX = 4096"

text \<open>
  \<open>os.fsencode\<close>: UTF-8 with the error handler \<open>surrogateescape\<close>, under which the
  code points U+DC80 to U+DCFF stand for the single bytes 0x80 to 0xFF; \<open>None\<close> where
  it raises \<open>UnicodeEncodeError\<close>. \<open>nbytes\<close> is the number of bytes of a name.
\<close>

definition fsencode1 :: "nat \<Rightarrow> nat list option" where
  "fsencode1 c = (if 56448 \<le> c \<and> c \<le> 56575 then Some [c - 56320] else utf8_encode1 c)"

fun fsencode :: "pystr \<Rightarrow> nat list option" where
  "fsencode [] = Some []"
| "fsencode (c # cs) =
     (case fsencode1 c of
        None \<Rightarrow> None
      | Some bs \<Rightarrow> map_option ((@) bs) (fsencode cs))"

definition nbytes :: "pystr \<Rightarrow> nat" where
  "nbytes s = (case fsencode s of None \<Rightarrow> 0 | Some bs \<Rightarrow> length bs)"

fun lookup :: "node \<Rightarrow> pystr list \<Rightarrow> node option" where
  "lookup n [] = Some n"
| "lookup (File bs) (c # cs) = None"
| "lookup (Dir es) (c # cs) =
     (case map_of es c of None \<Rightarrow> None | Some n \<Rightarrow> lookup n cs)"

fun walk :: "node \<Rightarrow> pystr list \<Rightarrow> pystr list \<Rightarrow> errno + pystr list" where
  "walk r loc [] = Inr loc"
| "walk r loc (c # cs) =
     (case lookup r loc of
        None \<Rightarrow> Inl ENOENT
      | Some (File bs) \<Rightarrow> Inl ENOTDIR
      | Some (Dir es) \<Rightarrow>
          if c = lit ''..'' then walk r (butlast loc) cs
          else if NAME_MAX < nbytes c then Inl ENAMETOOLONG
          else (case map_of es c of None \<Rightarrow> Inl ENOENT | Some n \<Rightarrow> walk r (loc @ [c]) cs))"

definition resolve :: "filesystem \<Rightarrow> pystr list \<Rightarrow> errno + pystr list" where
  "resolve fs parts = walk (root fs) (cwd fs) parts"

subsection \<open>Paths\<close>

text \<open>
  \<open>s.split(c)\<close>, and \<open>Path(d) / filename\<close> for a \<open>filename\<close> that does not start with
  a separator (that of \<open>load_scene_text\<close> starts with \<open>lear_act\<close>): pathlib joins the
  two with a separator, cuts the result at the separators and drops the empty
  components and the components \<open>.\<close>; \<open>str(path)\<close> joins what is left. A component
  \<open>..\<close> stays.
\<close>

fun split :: "nat \<Rightarrow> pystr \<Rightarrow> pystr list" where
  "split c [] = [[]]"
| "split c (x # xs) =
     (if x = c then [] # split c xs
      else (case split c xs of
              y # ys \<Rightarrow> (x # y) # ys
            | [] \<Rightarrow> [[x]]))"

definition SCENE_DIR :: pystr where
  "SCENE_DIR = lit ''scenes''"

definition path_div :: "pystr \<Rightarrow> pystr \<Rightarrow> pystr list" where
  "path_div d filename =
     filter (\<lambda>x. x \<noteq> [] \<and> x \<noteq> lit ''.'') (split 47 (d @ lit ''/'' @ filename))"

definition path_str :: "pystr list \<Rightarrow> pystr" where
  "path_str parts = (if parts = [] then lit ''.'' else join (lit ''/'') parts)"

text \<open>
  \<open>Path.stat()\<close>, that is \<open>os.stat(str(path))\<close>. Python raises \<open>ValueError\<close> for a
  path that \<open>os.fsencode\<close> cannot encode or that holds a NUL character, before the
  operating system sees it. The operating system refuses a path of \<open>PATH_MAX\<close> bytes
  or more with \<open>ENAMETOOLONG\<close>, and resolves a shorter one.
\<close>

definition stat :: "filesystem \<Rightarrow> pystr list \<Rightarrow> exn + node" where
  "stat fs parts =
     (case fsencode (path_str parts) of
        None \<Rightarrow> Inl ValueError
      | Some bs \<Rightarrow>
          if 0 \<in> set bs then Inl ValueError
          else if PATH_MAX \<le> length bs then Inl (OSError ENAMETOOLONG)
          else (case resolve fs parts of
                  Inl e \<Rightarrow> Inl (OSError e)
                | Inr loc \<Rightarrow>
                    (case lookup (root fs) loc of
                       None \<Rightarrow> Inl (OSError ENOENT)
                     | Some n \<Rightarrow> Inr n)))"

text \<open>
  \<open>Path.exists()\<close> (pathlib of Python 3.11): \<open>True\<close> when \<open>stat\<close> succeeds, on a
  file or on a directory; \<open>False\<close> when it raises \<open>ValueError\<close> or an \<open>OSError\<close>
  with \<open>ENOENT\<close> or \<open>ENOTDIR\<close>; every other \<open>OSError\<close> is raised again.
\<close>

definition path_exists :: "filesystem \<Rightarrow> pystr list \<Rightarrow> exn + bool" where
  "path_exists fs parts =
     (case stat fs parts of
        Inr n \<Rightarrow> Inr True
      | Inl ValueError \<Rightarrow> Inr False
      | Inl (OSError ENOENT) \<Rightarrow> Inr False
      | Inl (OSError ENOTDIR) \<Rightarrow> Inr False
      | Inl e \<Rightarrow> Inl e)"

text \<open>
  \<open>Path.read_text(encoding="utf-8")\<close> on a path: \<open>open\<close> resolves the path as
  \<open>stat\<close> does. \<open>load_scene_text\<close> calls it only after \<open>exists()\<close> has returned
  \<open>True\<close>, so on a file system that does not change in between the path resolves
  there (lemma \<open>stat_after_exists\<close>).
\<close>

definition read_text :: "filesystem \<Rightarrow> pystr list \<Rightarrow> exn + pystr" where
  "read_text fs parts =
     (case stat fs parts of
        Inl e \<Rightarrow> Inl e
      | Inr (Dir es) \<Rightarrow> Inl IsADirectoryError
      | Inr (File bs) \<Rightarrow>
          (case utf8_decode (map of_char bs) of
             None \<Rightarrow> Inl UnicodeDecodeError
           | Some t \<Rightarrow> Inr (universal_newlines t)))"

subsection \<open>\<open>load_scene_text\<close>\<close>

definition scene_filename :: "pystr \<Rightarrow> pystr \<Rightarrow> pystr" where
  "scene_filename act scene = lit ''lear_act'' @ act @ lit ''_scene'' @ scene @ lit ''.txt''"

text \<open>The value of the local variable \<open>path\<close> (line 23).\<close>

abbreviation scene_path :: "pystr \<Rightarrow> pystr \<Rightarrow> pystr list" where
  "scene_path act scene \<equiv> path_div SCENE_DIR (scene_filename act scene)"

definition load_scene_text :: "filesystem \<Rightarrow> pystr \<Rightarrow> pystr \<Rightarrow> exn + pystr" where
  "load_scene_text fs act scene =
     (let filename = scene_filename act scene;
          path = path_div SCENE_DIR filename
      in case path_exists fs path of
           Inl e \<Rightarrow> Inl e
         | Inr False \<Rightarrow> Inl (FileNotFoundError (lit ''No scene file: '' @ path_str path))
         | Inr True \<Rightarrow> read_text fs path)"

section \<open>The HTTP facade\<close>

text \<open>
  A response is a status and a body. A body is either the JSON document that
  \<open>jsonify\<close> writes, given here as the value it encodes, or the HTML page with which
  Flask itself answers when a view raises: 400 for the \<open>BadRequest\<close> of
  \<open>get_json\<close>, 500 for every other exception that leaves the view. For each
  endpoint, \<open>scene_view\<close> and \<open>analyze_view\<close> are the bodies of the Python
  functions, which return a response or raise; \<open>api_scene\<close> and \<open>api_analyze\<close>
  are what the client receives. The lines that \<open>print\<close> writes to the log of the
  server are left out.
\<close>

datatype body = JsonBody json | HtmlPage

datatype response = Response (status: nat) (body: body)

definition error_body :: "pystr \<Rightarrow> body" where
  "error_body msg = JsonBody (JObj [(lit ''error'', JStr msg)])"

definition flask_dispatch :: "exn + response \<Rightarrow> response" where
  "flask_dispatch r =
     (case r of
        Inr resp \<Rightarrow> resp
      | Inl BadRequest \<Rightarrow> Response 400 HtmlPage
      | Inl e \<Rightarrow> Response 500 HtmlPage)"

subsection \<open>\<open>GET /api/scene\<close>\<close>

text \<open>
  \<open>request.args\<close> is the list of the query parameters in the order of the URL;
  \<open>request.args.get(k)\<close> is the first value given for \<open>k\<close>, or \<open>None\<close>.
\<close>

type_synonym query = "(pystr \<times> pystr) list"

definition scene_view :: "filesystem \<Rightarrow> query \<Rightarrow> exn + response" where
  "scene_view fs args =
     (let act = map_of args (lit ''act'');
          scene = map_of args (lit ''scene'')
      in case (act, scene) of
           (Some a, Some s) \<Rightarrow>
             if a = [] \<or> s = []
             then Inr (Response 400 (error_body (lit ''act and scene are required'')))
             else (case load_scene_text fs a s of
                     Inr t \<Rightarrow> Inr (Response 200 (JsonBody (JObj [(lit ''text'', JStr t)])))
                   | Inl (FileNotFoundError m) \<Rightarrow> Inr (Response 404 (error_body m))
                   | Inl e \<Rightarrow> Inr (Response 500 (error_body (lit ''Failed to load scene''))))
         | _ \<Rightarrow> Inr (Response 400 (error_body (lit ''act and scene are required''))))"

definition api_scene :: "filesystem \<Rightarrow> query \<Rightarrow> response" where
  "api_scene fs args = flask_dispatch (scene_view fs args)"

subsection \<open>\<open>POST /api/analyze\<close>\<close>

text \<open>
  \<open>json.loads\<close> and \<open>request.get_json(force=True)\<close> belong to the libraries. A text
  handed to them is given by what they make of it: \<open>Malformed\<close> when the parser
  rejects it, \<open>Parsed v\<close> when it decodes to \<open>v\<close>.

  The provider's answer to \<open>client.chat.completions.create\<close> is \<open>Raises\<close> (no
  connection, a status that is not a success, ...) or a completion with its choices,
  each the \<open>message.content\<close> of the choice: \<open>None\<close> or a text. The model name, the
  response format and the temperature are constants of the call, so the answer is a
  function of the prompt.
\<close>

datatype parse = Malformed | Parsed json

datatype reply = Raises | Completion "parse option list"

text \<open>\<open>d.get(k, default)\<close> on a dict.\<close>

definition dict_get :: "(pystr \<times> json) list \<Rightarrow> pystr \<Rightarrow> json \<Rightarrow> json" where
  "dict_get d k dflt = (case map_of d k of None \<Rightarrow> dflt | Some v \<Rightarrow> v)"

text \<open>
  \<open>analyze_with_gpt\<close> returns its result together with the prompts it has sent to
  the provider.
\<close>

definition analyze_with_gpt ::
  "(json \<Rightarrow> pystr) \<Rightarrow> (pystr \<Rightarrow> reply) \<Rightarrow> pystr \<Rightarrow> json \<Rightarrow> json \<Rightarrow> (exn + json) \<times> pystr list"
where
  "analyze_with_gpt container create text act scene =
     (let p = prompt container text act scene
      in (case create p of
            Raises \<Rightarrow> Inl APIError
          | Completion [] \<Rightarrow> Inl IndexError
          | Completion (None # cs) \<Rightarrow> Inl TypeError
          | Completion (Some Malformed # cs) \<Rightarrow> Inl JSONDecodeError
          | Completion (Some (Parsed data) # cs) \<Rightarrow> Inr data,
          [p]))"

definition analyze_view ::
  "(json \<Rightarrow> pystr) \<Rightarrow> (pystr \<Rightarrow> reply) \<Rightarrow> parse \<Rightarrow> (exn + response) \<times> pystr list"
where
  "analyze_view container create request_body =
     (case request_body of
        Malformed \<Rightarrow> (Inl BadRequest, [])
      | Parsed (JObj payload) \<Rightarrow>
          (case dict_get payload (lit ''text'') (JStr []) of
             JStr s \<Rightarrow>
               (let text = strip s
                in if text = []
                   then (Inr (Response 400 (error_body (lit ''No text provided.''))), [])
                   else
                     (let act = dict_get payload (lit ''act'') JNull;
                          scene = dict_get payload (lit ''scene'') JNull
                      in case analyze_with_gpt container create text act scene of
                           (Inr result, sent) \<Rightarrow> (Inr (Response 200 (JsonBody result)), sent)
                         | (Inl e, sent) \<Rightarrow>
                             (Inr (Response 500 (error_body (lit ''GPT analysis failed.''))),
                              sent)))
           | _ \<Rightarrow> (Inl AttributeError, []))
      | Parsed _ \<Rightarrow> (Inl AttributeError, []))"

definition api_analyze ::
  "(json \<Rightarrow> pystr) \<Rightarrow> (pystr \<Rightarrow> reply) \<Rightarrow> parse \<Rightarrow> response \<times> pystr list"
where
  "api_analyze container create request_body =
     (case analyze_view container create request_body of
        (r, sent) \<Rightarrow> (flask_dispatch r, sent))"

section \<open>A deployment to compute on\<close>

text \<open>
  The service runs in \<open>/srv\<close>. Its \<open>scenes\<close> directory holds one scene in UTF-8
  with line feeds, one with the line ends of Windows (\<open>\r\n\<close>), one with a lone
  carriage return, one in Latin-1 (the byte \<open>0xE9\<close> is no UTF-8), a directory
  that has the name of a scene, and a directory \<open>lear_act\<close>. A file \<open>other_scene1.txt\<close> lies beside \<open>scenes\<close>, outside of it.
  \<open>long_act\<close> is an identifier of 300 letters \<open>a\<close>.
\<close>

definition CR :: char where
  "CR = CHR 0x0D"

definition LF :: char where
  "LF = CHR 0x0A"

definition scenes_demo :: "(pystr \<times> node) list" where
  "scenes_demo =
     [(lit ''lear_act1_scene1.txt'', File (''Blow, winds,'' @ [LF] @ ''and crack'' @ [LF])),
      (lit ''lear_act3_scene2.txt'', File (''Blow, winds,'' @ [CR, LF] @ ''and crack'')),
      (lit ''lear_act3_scene6.txt'', File (''Blow'' @ [CR] @ ''winds'')),
      (lit ''lear_act5_scene3.txt'', File (''Cord'' @ [CHR 0xE9] @ ''lia'')),
      (lit ''lear_act4_scene7.txt'', Dir []),
      (lit ''lear_act'', Dir [])]"

definition srv_demo :: "(pystr \<times> node) list" where
  "srv_demo =
     [(lit ''other_scene1.txt'', File ''secret''),
      (lit ''scenes'', Dir scenes_demo)]"

definition long_act :: pystr where
  "long_act = replicate 300 97"

definition fs_demo :: filesystem where
  "fs_demo = \<lparr>root = Dir [(lit ''srv'', Dir srv_demo)], cwd = [lit ''srv'']\<rparr>"

section \<open>Evaluation\<close>

text \<open>The defining equations that compute a request on a concrete file system.\<close>

lemmas eval_defs =
  fs_demo_def srv_demo_def scenes_demo_def CR_def LF_def api_scene_def scene_view_def
  flask_dispatch_def load_scene_text_def path_exists_def stat_def resolve_def read_text_def
  path_div_def path_str_def scene_filename_def SCENE_DIR_def lit_def NL_def error_body_def
  cont_def NAME_MAX_def PATH_MAX_def nbytes_def fsencode1_def utf8_encode1_def

section \<open>Properties of the prompt\<close>

lemma prompt_head_nonempty: "prompt_head \<noteq> []"
  by (simp add: prompt_head_def NL_def)

text \<open>
  Claim C7. For every text and every pair of identifiers (absent, a string, or any
  other decoded JSON value), the prompt is not empty and holds the text as one
  contiguous piece.
\<close>

theorem prompt_contains_text:
  "prompt container text act scene \<noteq> [] \<and> sublist text (prompt container text act scene)"
proof
  show "prompt container text act scene \<noteq> []"
    by (simp add: prompt_def prompt_head_nonempty)
  have "prompt container text act scene =
      (prompt_head @ context_str container act scene @ prompt_rubric) @ text @ prompt_tail"
    by (simp add: prompt_def)
  then show "sublist text (prompt container text act scene)"
    by (simp only: sublist_appendI)
qed










theorem prompt_contains_text_witness:
  "prompt (\<lambda>v. []) (lit ''Blow, winds'') (JStr (lit ''3'')) (JInt 2) \<noteq> [] \<and>
   sublist (lit ''Blow, winds'') (prompt (\<lambda>v. []) (lit ''Blow, winds'') (JStr (lit ''3'')) (JInt 2))"
  by (rule prompt_contains_text)

section \<open>Decoding and encoding UTF-8\<close>

text \<open>
  Encoding the text that \<open>utf8_decode\<close> returns gives the bytes back. A code point
  of two, three or four bytes is first written as a number in base 64, which makes its
  quotients and remainders plain.
\<close>

lemma pack_div: "z < 64 \<Longrightarrow> (a * 64 + z) div 64 = (a::nat)"
  by simp

lemma pack_mod: "z < 64 \<Longrightarrow> (a * 64 + z) mod 64 = (z::nat)"
  by simp

lemma cont_offset: "cont b \<Longrightarrow> \<exists>z<64. b = 128 + z"
proof -
  assume "cont b"
  then have "b - 128 < 64 \<and> b = 128 + (b - 128)"
    unfolding cont_def by arith
  then show ?thesis by blast
qed

lemma lead_offset: "(n::nat) \<le> b \<Longrightarrow> \<exists>x. b = n + x"
  by (rule exI [of _ "b - n"]) simp

lemma encode1_two:
  assumes "194 \<le> b" "b \<le> 223" "cont b1"
  shows "utf8_encode1 ((b - 192) * 64 + (b1 - 128)) = Some [b, b1]"
proof -
  obtain y where y: "y < 64" "b1 = 128 + y" using cont_offset [OF assms(3)] by blast
  have "192 \<le> b" using assms(1) by simp
  then obtain x where x: "b = 192 + x" using lead_offset by blast
  have xr: "2 \<le> x" "x < 32" using assms(1,2) x by simp_all
  define c where "c = x * 64 + y"
  have c: "(b - 192) * 64 + (b1 - 128) = c" by (simp add: x y c_def)
  have lo: "128 \<le> c" using xr(1) unfolding c_def by simp
  have hi: "c < 2048" using xr(2) y(1) unfolding c_def by simp
  have d: "c mod 64 = y" "c div 64 = x"
    using y(1) unfolding c_def by simp_all
  show ?thesis
    unfolding c using lo hi by (simp add: utf8_encode1_def d x y(2))
qed

lemma encode1_three:
  assumes "224 \<le> b" "b \<le> 239"
    and "(if b = 224 then 160 else 128) \<le> b1" "b1 \<le> (if b = 237 then 159 else 191)" "cont b2"
  shows "utf8_encode1 ((b - 224) * 4096 + (b1 - 128) * 64 + (b2 - 128)) = Some [b, b1, b2]"
proof -
  obtain z where z: "z < 64" "b2 = 128 + z" using cont_offset [OF assms(5)] by blast
  have "cont b1" using assms(3,4) by (simp add: cont_def split: if_splits)
  then obtain y where y: "y < 64" "b1 = 128 + y" using cont_offset by blast
  obtain x where x: "b = 224 + x" using lead_offset [OF assms(1)] by blast
  have xr: "x < 16" using assms(2) x by simp
  have y0: "x = 0 \<longrightarrow> 32 \<le> y" using assms(3) x y by (simp split: if_splits)
  have y13: "x = 13 \<longrightarrow> y < 32" using assms(4) x y by (simp split: if_splits)
  define c where "c = (x * 64 + y) * 64 + z"
  have c: "(b - 224) * 4096 + (b1 - 128) * 64 + (b2 - 128) = c" by (simp add: x y z c_def)
  have lo: "2048 \<le> c" using y0 z(1) y(1) unfolding c_def by (cases "x = 0") simp_all
  have hi: "c < 65536" using xr z(1) y(1) unfolding c_def by simp
  have sur: "\<not> (55296 \<le> c \<and> c \<le> 57343)"
  proof (cases "x = 13")
    case True
    then show ?thesis using y13 z(1) unfolding c_def by simp
  next
    case False
    then have "x \<le> 12 \<or> 14 \<le> x" by arith
    then show ?thesis using y(1) z(1) unfolding c_def by auto
  qed
  have d: "c mod 64 = z" "c div 64 = x * 64 + y"
    unfolding c_def by (rule pack_mod [OF z(1)], rule pack_div [OF z(1)])
  have d2: "c div 64 mod 64 = y" "c div 4096 = x"
  proof -
    show "c div 64 mod 64 = y" unfolding d by (rule pack_mod [OF y(1)])
    have "c div 4096 = c div 64 div 64" by (simp add: div_mult2_eq)
    then show "c div 4096 = x" unfolding d by (simp only: pack_div [OF y(1)])
  qed
  show ?thesis
    unfolding c using lo hi sur by (simp add: utf8_encode1_def d(1) d2 x y(2) z(2))
qed

lemma encode1_four:
  assumes "240 \<le> b" "b \<le> 244"
    and "(if b = 240 then 144 else 128) \<le> b1" "b1 \<le> (if b = 244 then 143 else 191)"
    and "cont b2" "cont b3"
  shows "utf8_encode1 ((b - 240) * 262144 + (b1 - 128) * 4096 + (b2 - 128) * 64 + (b3 - 128)) =
     Some [b, b1, b2, b3]"
proof -
  obtain w where w: "w < 64" "b3 = 128 + w" using cont_offset [OF assms(6)] by blast
  obtain z where z: "z < 64" "b2 = 128 + z" using cont_offset [OF assms(5)] by blast
  have "cont b1" using assms(3,4) by (simp add: cont_def split: if_splits)
  then obtain y where y: "y < 64" "b1 = 128 + y" using cont_offset by blast
  obtain x where x: "b = 240 + x" using lead_offset [OF assms(1)] by blast
  have xr: "x < 5" using assms(2) x by simp
  have y0: "x = 0 \<longrightarrow> 16 \<le> y" using assms(3) x y by (simp split: if_splits)
  have y4: "x = 4 \<longrightarrow> y < 16" using assms(4) x y by (simp split: if_splits)
  define c where "c = ((x * 64 + y) * 64 + z) * 64 + w"
  have c: "(b - 240) * 262144 + (b1 - 128) * 4096 + (b2 - 128) * 64 + (b3 - 128) = c"
    by (simp add: x y z w c_def)
  have lo: "65536 \<le> c" using y0 unfolding c_def by (cases "x = 0") simp_all
  have hi: "c < 1114112"
  proof (cases "x = 4")
    case True
    then show ?thesis using y4 z(1) w(1) unfolding c_def by simp
  next
    case False
    then have "x \<le> 3" using xr by arith
    then show ?thesis using y(1) z(1) w(1) unfolding c_def by simp
  qed
  have d: "c mod 64 = w" "c div 64 = (x * 64 + y) * 64 + z"
    unfolding c_def by (rule pack_mod [OF w(1)], rule pack_div [OF w(1)])
  have e: "c div 4096 = x * 64 + y"
  proof -
    have "c div 4096 = c div 64 div 64" by (simp add: div_mult2_eq)
    then show ?thesis unfolding d by (simp only: pack_div [OF z(1)])
  qed
  have f: "c div 262144 = x"
  proof -
    have "c div 262144 = c div 4096 div 64" by (simp add: div_mult2_eq)
    then show ?thesis unfolding e by (simp only: pack_div [OF y(1)])
  qed
  have g: "c div 64 mod 64 = z" "c div 4096 mod 64 = y"
    unfolding d e by (rule pack_mod [OF z(1)], rule pack_mod [OF y(1)])
  show ?thesis
    unfolding c using lo hi by (simp add: utf8_encode1_def d(1) f g x y(2) z(2) w(2))
qed


lemma utf8_roundtrip: "utf8_decode bs = Some t \<Longrightarrow> utf8_encode t = Some bs"
proof (induction bs arbitrary: t rule: utf8_decode.induct)
  case 1
  then show ?case by simp
next
  case (2 b bs)
  consider (one) "b < 128"
    | (two) "194 \<le> b" "b \<le> 223"
    | (three) "224 \<le> b" "b \<le> 239"
    | (four) "240 \<le> b" "b \<le> 244"
    | (bad) "128 \<le> b" "b < 194 \<or> 244 < b"
    by arith
  then show ?case
  proof cases
    case one
    with "2.prems" obtain t' where t': "utf8_decode bs = Some t'" "t = b # t'"
      by auto
    with one "2.IH"(1) show ?thesis
      by (simp add: utf8_encode1_def)
  next
    case two
    with "2.prems" obtain b1 r t' where
      s: "bs = b1 # r" "cont b1" "utf8_decode r = Some t'"
         "t = ((b - 192) * 64 + (b1 - 128)) # t'"
      by (auto split: list.splits if_splits)
    have "utf8_encode t' = Some r"
      using "2.IH"(2) [OF _ _ s(1) s(2) s(3)] two by simp
    with s two show ?thesis
      by (simp add: encode1_two)
  next
    case three
    with "2.prems" obtain b1 b2 r t' where
      s: "bs = b1 # b2 # r"
         "(if b = 224 then 160 else 128) \<le> b1 \<and> b1 \<le> (if b = 237 then 159 else 191) \<and> cont b2"
         "utf8_decode r = Some t'"
         "t = ((b - 224) * 4096 + (b1 - 128) * 64 + (b2 - 128)) # t'"
      by (auto split: list.splits if_splits)
    have "utf8_encode t' = Some r"
      using "2.IH"(3) [OF _ _ _ s(1) _ s(2) s(3)] three by simp
    with s three show ?thesis
      by (simp add: encode1_three)
  next
    case four
    with "2.prems" obtain b1 b2 b3 r t' where
      s: "bs = b1 # b2 # b3 # r"
         "(if b = 240 then 144 else 128) \<le> b1 \<and> b1 \<le> (if b = 244 then 143 else 191) \<and>
          cont b2 \<and> cont b3"
         "utf8_decode r = Some t'"
         "t = ((b - 240) * 262144 + (b1 - 128) * 4096 + (b2 - 128) * 64 + (b3 - 128)) # t'"
      by (auto split: list.splits if_splits)
    have "utf8_encode t' = Some r"
      using "2.IH"(4) [OF _ _ _ _ s(1) _ _ s(2) s(3)] four by simp
    with s four show ?thesis
      by (simp add: encode1_four)
  next
    case bad
    with "2.prems" show ?thesis by auto
  qed
qed

section \<open>Validation of the requests\<close>

text \<open>
  Claim C10. \<open>GET /api/scene\<close> answers 400 with a JSON error body when \<open>act\<close> or
  \<open>scene\<close> is not among the query parameters, and also when one of them is there
  with the empty string as its value.
\<close>

theorem scene_blank_parameter_is_missing:
  "map_of args (lit ''act'') \<in> {None, Some []} \<or> map_of args (lit ''scene'') \<in> {None, Some []} \<Longrightarrow>
   api_scene fs args = Response 400 (error_body (lit ''act and scene are required''))"
  by (auto simp: api_scene_def scene_view_def flask_dispatch_def split: option.splits)

theorem scene_blank_parameter_is_missing_witness:
  "api_scene fs_demo [(lit ''act'', lit ''3''), (lit ''scene'', [])] =
     Response 400 (error_body (lit ''act and scene are required'')) \<and>
   api_scene fs_demo [(lit ''scene'', lit ''4'')] =
     Response 400 (error_body (lit ''act and scene are required''))"
  using scene_blank_parameter_is_missing
      [of "[(lit ''act'', lit ''3''), (lit ''scene'', [])]" fs_demo]
    scene_blank_parameter_is_missing
      [of "[(lit ''scene'', lit ''4'')]" fs_demo]
  by (simp add: lit_def)

text \<open>\<open>strip\<close> leaves nothing exactly of a text that is white space throughout.\<close>

lemma strip_empty_iff: "strip s = [] \<longleftrightarrow> (\<forall>c\<in>set s. isspace c)"
proof
  assume "strip s = []"
  then have all: "\<forall>x\<in>set (dropWhile isspace s). isspace x"
    by (simp add: strip_def dropWhile_eq_Nil_conv)
  have "dropWhile isspace s = []"
  proof (cases "dropWhile isspace s")
    case Nil
    then show ?thesis .
  next
    case (Cons y ys)
    then have "\<not> isspace y"
      using hd_dropWhile [of isspace s] by simp
    moreover have "isspace y"
      using all Cons by simp
    ultimately show ?thesis by simp
  qed
  then show "\<forall>c\<in>set s. isspace c"
    by (simp add: dropWhile_eq_Nil_conv)
next
  assume "\<forall>c\<in>set s. isspace c"
  then have d: "dropWhile isspace s = []"
    by (simp add: dropWhile_eq_Nil_conv)
  show "strip s = []"
    unfolding strip_def d by simp
qed

lemma strip_blank: "(\<forall>c\<in>set s. isspace c) \<Longrightarrow> strip s = []"
  using strip_empty_iff by blast

text \<open>
  Claim C5. When the body of \<open>POST /api/analyze\<close> is a JSON object without the key
  \<open>text\<close>, or with a \<open>text\<close> that is a string of white space only (the empty string
  among them), the answer is 400 with a JSON error body, and no prompt has been sent
  to the provider.
\<close>

theorem blank_text_is_400:
  assumes "map_of payload (lit ''text'') = None \<or>
           (\<exists>s. map_of payload (lit ''text'') = Some (JStr s) \<and> (\<forall>c\<in>set s. isspace c))"
  shows "api_analyze container create (Parsed (JObj payload)) =
           (Response 400 (error_body (lit ''No text provided.'')), [])"
  using assms
  by (auto simp: api_analyze_def analyze_view_def dict_get_def flask_dispatch_def strip_blank)

theorem blank_text_is_400_witness:
  "api_analyze (\<lambda>v. []) (\<lambda>p. Raises) (Parsed (JObj [(lit ''act'', JStr (lit ''3''))])) =
     (Response 400 (error_body (lit ''No text provided.'')), []) \<and>
   api_analyze (\<lambda>v. []) (\<lambda>p. Raises) (Parsed (JObj [(lit ''text'', JStr [32, 10, 160])])) =
     (Response 400 (error_body (lit ''No text provided.'')), [])"
  using blank_text_is_400 [of "[(lit ''act'', JStr (lit ''3''))]" "\<lambda>v. []" "\<lambda>p. Raises"]
    blank_text_is_400 [of "[(lit ''text'', JStr [32, 10, 160])]" "\<lambda>v. []" "\<lambda>p. Raises"]
  by (simp add: lit_def isspace_def)

section \<open>The answer of the provider\<close>

text \<open>
  Claim C2, as the code has it. For a request whose \<open>text\<close> is a string that is not
  blank, one prompt is sent. When the first choice of the completion has a content
  that \<open>json.loads\<close> decodes, the decoded value is the body of a 200 answer, whatever
  value it is: an object, but also a list, a number, a string or \<open>null\<close>, and with no
  check of the keys or of the ranges. In every other case (the call raises, there is no
  choice, the content is \<open>None\<close> or is not JSON) the answer is 500 with the fixed
  message.
\<close>

theorem analyze_passes_any_json:
  assumes "dict_get payload (lit ''text'') (JStr []) = JStr s" and "strip s \<noteq> []"
  shows "api_analyze container create (Parsed (JObj payload)) =
     (let p = prompt container (strip s) (dict_get payload (lit ''act'') JNull)
                (dict_get payload (lit ''scene'') JNull)
      in (case create p of
            Completion (Some (Parsed data) # cs) \<Rightarrow> Response 200 (JsonBody data)
          | _ \<Rightarrow> Response 500 (error_body (lit ''GPT analysis failed.'')),
          [p]))"
  using assms
  by (simp add: api_analyze_def analyze_view_def analyze_with_gpt_def flask_dispatch_def Let_def
      split: reply.splits list.splits option.splits parse.splits)

theorem analyze_passes_any_json_witness:
  "api_analyze (\<lambda>v. [])
      (\<lambda>p. Completion [Some (Parsed (JObj [(lit ''madness_score'', JInt 9999)]))])
      (Parsed (JObj [(lit ''text'', JStr (lit '' Blow, winds ''))])) =
     (Response 200 (JsonBody (JObj [(lit ''madness_score'', JInt 9999)])),
      [prompt (\<lambda>v. []) (lit ''Blow, winds'') JNull JNull])"
  using analyze_passes_any_json
    [of "[(lit ''text'', JStr (lit '' Blow, winds ''))]" "lit '' Blow, winds ''"
      "\<lambda>v. []" "\<lambda>p. Completion [Some (Parsed (JObj [(lit ''madness_score'', JInt 9999)]))]"]
  by (simp add: lit_def dict_get_def strip_def isspace_def)

text \<open>
  The claim as the specification states it fails: a content that is JSON but not an
  object, here the list \<open>[1]\<close>, is no failure; it comes back with status 200.
\<close>

theorem analyze_non_object_counterexample:
  "fst (api_analyze (\<lambda>v. []) (\<lambda>p. Completion [Some (Parsed (JArr [JInt 1]))])
      (Parsed (JObj [(lit ''text'', JStr (lit ''Blow, winds''))]))) =
     Response 200 (JsonBody (JArr [JInt 1]))"
  by (simp add: api_analyze_def analyze_view_def analyze_with_gpt_def flask_dispatch_def
      lit_def dict_get_def strip_def isspace_def)

section \<open>Failures that leave the views\<close>

text \<open>
  \<open>api_scene\<close> catches every exception of \<open>load_scene_text\<close>, so its body is always
  JSON. \<open>api_analyze\<close> does so for a body that is an object whose \<open>text\<close> is absent
  or a string.
\<close>

lemma api_scene_json: "\<exists>j. body (api_scene fs args) = JsonBody j"
  by (simp add: api_scene_def scene_view_def flask_dispatch_def error_body_def
      split: option.splits sum.splits exn.splits)

lemma api_analyze_json:
  assumes "dict_get payload (lit ''text'') (JStr []) = JStr s"
  shows "\<exists>j. body (fst (api_analyze container create (Parsed (JObj payload)))) = JsonBody j"
  using assms
  by (simp add: api_analyze_def analyze_view_def analyze_with_gpt_def flask_dispatch_def
      error_body_def Let_def split: sum.splits)

text \<open>
  Claim C1 does not hold for \<open>POST /api/analyze\<close>. \<open>get_json\<close> and
  \<open>payload.get("text", "").strip()\<close> stand before the \<open>try\<close>: with the body
  \<open>{"text": 5}\<close> the \<open>AttributeError\<close> of \<open>strip\<close> leaves the view and Flask answers
  500 with its own HTML page, and with a body that is not JSON Flask answers 400 with
  its own HTML page. Neither body is JSON.
\<close>

theorem analyze_unhandled:
  "api_analyze container create (Parsed (JObj [(lit ''text'', JInt 5)])) =
     (Response 500 HtmlPage, []) \<and>
   api_analyze container create Malformed = (Response 400 HtmlPage, [])"
  by (simp add: api_analyze_def analyze_view_def flask_dispatch_def dict_get_def)

section \<open>Paths and reading\<close>

lemma split_nonempty: "split c s \<noteq> []"
  by (induction s) (auto split: list.splits)

lemma split_no_sep: "c \<notin> set s \<Longrightarrow> split c s = [s]"
  by (induction s) auto

lemma split_at_sep: "c \<notin> set a \<Longrightarrow> split c (a @ c # b) = a # split c b"
  by (induction a) auto

lemma scene_filename_plain:
  "47 \<notin> set act \<Longrightarrow> 47 \<notin> set scene \<Longrightarrow> 47 \<notin> set (scene_filename act scene)"
  by (simp add: scene_filename_def lit_def)

lemma scene_path_plain:
  assumes "47 \<notin> set act" and "47 \<notin> set scene"
  shows "scene_path act scene = [lit ''scenes'', scene_filename act scene]"
proof -
  have d: "47 \<notin> set SCENE_DIR"
    by (simp add: SCENE_DIR_def lit_def)
  have "split 47 (SCENE_DIR @ lit ''/'' @ scene_filename act scene) =
      [SCENE_DIR, scene_filename act scene]"
    using split_at_sep [OF d, of "scene_filename act scene"]
      split_no_sep [OF scene_filename_plain [OF assms]]
    by (simp add: lit_def)
  moreover have "scene_filename act scene \<noteq> []" "scene_filename act scene \<noteq> lit ''.''"
    by (simp_all add: scene_filename_def lit_def)
  ultimately show ?thesis
    by (simp add: path_div_def SCENE_DIR_def lit_def)
qed

lemma path_str_plain:
  assumes "47 \<notin> set act" and "47 \<notin> set scene"
  shows "path_str (scene_path act scene) =
     lit ''scenes/lear_act'' @ act @ lit ''_scene'' @ scene @ lit ''.txt''"
  unfolding scene_path_plain [OF assms]
  by (simp add: path_str_def scene_filename_def lit_def)

lemma char_bytes_back: "map char_of (map (of_char :: char \<Rightarrow> nat) bs) = bs"
  by (induction bs) simp_all

lemma str_encode_decoded:
  "utf8_decode (map of_char bs) = Some t \<Longrightarrow> str_encode t = Some bs"
  by (simp add: str_encode_def utf8_roundtrip char_bytes_back)

lemma encode_keeps_ascii:
  "utf8_encode t = Some bs \<Longrightarrow> c \<in> set t \<Longrightarrow> c < 128 \<Longrightarrow> c \<in> set bs"
proof (induction t arbitrary: bs)
  case Nil
  then show ?case by simp
next
  case (Cons a t)
  from Cons.prems(1) obtain xs ys where
    s: "utf8_encode1 a = Some xs" "utf8_encode t = Some ys" "bs = xs @ ys"
    by (auto split: option.splits)
  show ?case
  proof (cases "c = a")
    case True
    with Cons.prems(3) s(1) have "xs = [c]" by (simp add: utf8_encode1_def)
    with s(3) show ?thesis by simp
  next
    case False
    with Cons.prems(2) have "c \<in> set t" by simp
    with Cons.IH [OF s(2) _ Cons.prems(3)] s(3) show ?thesis by simp
  qed
qed

lemma universal_newlines_id: "13 \<notin> set t \<Longrightarrow> universal_newlines t = t"
  by (induction t) auto

lemma no_cr_decoded:
  assumes "utf8_decode (map of_char bs) = Some t" and "CR \<notin> set bs"
  shows "13 \<notin> set t"
proof
  assume "13 \<in> set t"
  with encode_keeps_ascii [OF utf8_roundtrip [OF assms(1)]]
  have "(13::nat) \<in> of_char ` set bs" by simp
  then obtain b where b: "b \<in> set bs" "of_char b = (13::nat)" by auto
  from b(2) have "char_of (of_char b :: nat) = char_of (13::nat)" by simp
  then have "b = CR" by (simp add: CR_def char_of_eq_iff)
  with b(1) assms(2) show False by simp
qed

lemma fsencode_ascii: "\<forall>c\<in>set s. c < 128 \<Longrightarrow> fsencode s = Some s"
  by (induction s) (simp_all add: fsencode1_def utf8_encode1_def)

lemma nbytes_ascii: "\<forall>c\<in>set s. c < 128 \<Longrightarrow> nbytes s = length s"
  by (simp add: nbytes_def fsencode_ascii)

lemma lookup_snoc:
  "lookup n (p @ [c]) =
     (case lookup n p of Some (Dir es) \<Rightarrow> map_of es c | _ \<Rightarrow> None)"
proof (induction n p rule: lookup.induct)
  case (1 n)
  then show ?case by (cases n) (simp_all split: option.splits)
next
  case (2 bs c cs)
  then show ?case by simp
next
  case (3 es c cs)
  then show ?case by (simp split: option.splits)
qed

text \<open>What \<open>exists()\<close> answers, by what \<open>stat\<close> does.\<close>

lemma exists_of_stat: "stat fs p = Inr n \<Longrightarrow> path_exists fs p = Inr True"
  by (simp add: path_exists_def)

lemma stat_after_exists: "path_exists fs p = Inr True \<Longrightarrow> \<exists>n. stat fs p = Inr n"
  by (auto simp: path_exists_def split: sum.splits exn.splits errno.splits)

lemma exists_false_iff:
  "path_exists fs p = Inr False \<longleftrightarrow>
     stat fs p \<in> {Inl ValueError, Inl (OSError ENOENT), Inl (OSError ENOTDIR)}"
  by (auto simp: path_exists_def split: sum.splits exn.splits errno.splits)

lemma exists_raises_iff:
  "path_exists fs p = Inl e \<longleftrightarrow> e = OSError ENAMETOOLONG \<and> stat fs p = Inl e"
proof -
  have "stat fs p = Inl x \<Longrightarrow> x = ValueError \<or> (\<exists>n. x = OSError n)" for x
    by (auto simp: stat_def split: option.splits if_splits sum.splits)
  then show ?thesis
    by (auto simp: path_exists_def split: sum.splits exn.splits errno.splits)
qed

lemma read_text_file:
  assumes "stat fs p = Inr (File bs)" and "utf8_decode (map of_char bs) = Some t"
  shows "read_text fs p = Inr (universal_newlines t)"
  using assms by (simp add: read_text_def)

lemma read_text_not_missing: "read_text fs p \<noteq> Inl (FileNotFoundError m)"
proof -
  have "stat fs p \<noteq> Inl (FileNotFoundError m)"
    by (auto simp: stat_def split: option.splits if_splits sum.splits)
  then show ?thesis
    by (auto simp: read_text_def split: sum.splits node.splits option.splits)
qed

lemma load_found:
  "path_exists fs (scene_path act scene) = Inr True \<Longrightarrow>
   load_scene_text fs act scene = read_text fs (scene_path act scene)"
  by (simp add: load_scene_text_def)

lemma load_missing:
  "path_exists fs (scene_path act scene) = Inr False \<Longrightarrow>
   load_scene_text fs act scene =
     Inl (FileNotFoundError (lit ''No scene file: '' @ path_str (scene_path act scene)))"
  by (simp add: load_scene_text_def)

lemma load_raises:
  "path_exists fs (scene_path act scene) = Inl e \<Longrightarrow> load_scene_text fs act scene = Inl e"
  by (simp add: load_scene_text_def)

text \<open>
  A name that is too long. For identifiers of ASCII letters without a separator, the
  file name has 18 bytes more than the two identifiers together. When it has more
  than 255 bytes and \<open>scenes\<close> is a directory, \<open>exists()\<close> raises \<open>OSError\<close> with
  \<open>ENAMETOOLONG\<close>.
\<close>

lemma long_name_refused:
  assumes plain: "\<forall>c\<in>set a \<union> set s. 0 < c \<and> c < 128 \<and> c \<noteq> 47"
    and cwd: "lookup (root fs) (cwd fs) = Some (Dir ws)"
    and scenes: "map_of ws (lit ''scenes'') = Some (Dir ss)"
    and long: "237 < length a + length s"
    and short: "length a + length s < 4000"
  shows "path_exists fs (scene_path a s) = Inl (OSError ENAMETOOLONG)"
proof -
  let ?f = "scene_filename a s"
  have nosep: "47 \<notin> set a" "47 \<notin> set s" using plain by auto
  have p: "scene_path a s = [lit ''scenes'', ?f]"
    by (rule scene_path_plain [OF nosep])
  have fa: "\<forall>c\<in>set ?f. 0 < c \<and> c < 128"
    using plain by (auto simp: scene_filename_def lit_def)
  have flen: "length ?f = 18 + length a + length s"
    by (simp add: scene_filename_def lit_def)
  have fb: "nbytes ?f = 18 + length a + length s"
    using fa by (simp add: nbytes_ascii flen)
  have str: "path_str [lit ''scenes'', ?f] = lit ''scenes/'' @ ?f"
    by (simp add: path_str_def lit_def)
  have sa: "\<forall>c\<in>set (lit ''scenes/'' @ ?f). 0 < c \<and> c < 128"
    using fa by (auto simp: lit_def)
  then have enc: "fsencode (lit ''scenes/'' @ ?f) = Some (lit ''scenes/'' @ ?f)"
    by (simp add: fsencode_ascii)
  have nul: "0 \<notin> set (lit ''scenes/'' @ ?f)"
    using sa by auto
  have len: "length (lit ''scenes/'' @ ?f) < PATH_MAX"
    using short by (simp add: flen PATH_MAX_def lit_def)
  have l1: "lookup (root fs) (cwd fs @ [lit ''scenes'']) = Some (Dir ss)"
    by (simp add: lookup_snoc cwd scenes)
  have n1: "\<not> NAME_MAX < nbytes (lit ''scenes'')"
    by (simp add: nbytes_ascii lit_def NAME_MAX_def)
  have ne: "lit ''scenes'' \<noteq> lit ''..''" "?f \<noteq> lit ''..''"
    by (simp_all add: scene_filename_def lit_def)
  have n2: "NAME_MAX < nbytes ?f"
    using long by (simp add: fb NAME_MAX_def)
  have "resolve fs [lit ''scenes'', ?f] = Inl ENAMETOOLONG"
    by (simp add: resolve_def cwd scenes l1 n1 n2 ne)
  then have "stat fs [lit ''scenes'', ?f] = Inl (OSError ENAMETOOLONG)"
    using nul len unfolding stat_def str enc by simp
  then show ?thesis
    unfolding p by (simp add: path_exists_def)
qed

section \<open>A scene that is not there\<close>

text \<open>
  Claim C6, as the code has it. When \<open>act\<close> and \<open>scene\<close> are both given and not
  empty, the answer depends on what \<open>Path.exists()\<close> does. When it returns
  \<open>False\<close> (nothing is at the path), the answer is 404 with a JSON error body whose
  message is \<open>No scene file: \<close> followed by the path. When it raises (the operating
  system refuses a name as too long), and when a directory stands at the path, the
  answer is 500 with the fixed message \<open>Failed to load scene\<close>.
\<close>

theorem missing_scene_is_404:
  assumes "map_of args (lit ''act'') = Some a" and "map_of args (lit ''scene'') = Some s"
    and "a \<noteq> []" and "s \<noteq> []"
  shows "(path_exists fs (scene_path a s) = Inr False \<longrightarrow>
            api_scene fs args =
              Response 404 (error_body (lit ''No scene file: '' @ path_str (scene_path a s)))) \<and>
         ((\<exists>e. path_exists fs (scene_path a s) = Inl e) \<or>
          (\<exists>es. stat fs (scene_path a s) = Inr (Dir es)) \<longrightarrow>
            api_scene fs args = Response 500 (error_body (lit ''Failed to load scene'')))"
proof (intro conjI impI)
  assume "path_exists fs (scene_path a s) = Inr False"
  then show "api_scene fs args =
      Response 404 (error_body (lit ''No scene file: '' @ path_str (scene_path a s)))"
    using assms by (simp add: api_scene_def scene_view_def flask_dispatch_def load_missing)
next
  assume "(\<exists>e. path_exists fs (scene_path a s) = Inl e) \<or>
    (\<exists>es. stat fs (scene_path a s) = Inr (Dir es))"
  then consider (raised) e where "path_exists fs (scene_path a s) = Inl e"
    | (dir) es where "stat fs (scene_path a s) = Inr (Dir es)"
    by blast
  then have "\<exists>e. load_scene_text fs a s = Inl e \<and> (\<forall>m. e \<noteq> FileNotFoundError m)"
  proof cases
    case raised
    then show ?thesis
      using exists_raises_iff [of fs "scene_path a s" e] by (simp add: load_raises)
  next
    case dir
    then show ?thesis
      by (simp add: load_found exists_of_stat read_text_def)
  qed
  then show "api_scene fs args = Response 500 (error_body (lit ''Failed to load scene''))"
    using assms
    by (auto simp: api_scene_def scene_view_def flask_dispatch_def split: exn.splits)
qed

theorem missing_scene_is_404_witness:
  "api_scene fs_demo [(lit ''act'', lit ''3''), (lit ''scene'', lit ''4'')] =
     Response 404 (error_body (lit ''No scene file: scenes/lear_act3_scene4.txt'')) \<and>
   api_scene fs_demo [(lit ''act'', lit ''4''), (lit ''scene'', lit ''7'')] =
     Response 500 (error_body (lit ''Failed to load scene''))"
  using missing_scene_is_404
      [of "[(lit ''act'', lit ''3''), (lit ''scene'', lit ''4'')]" "lit ''3''" "lit ''4''" fs_demo]
    missing_scene_is_404
      [of "[(lit ''act'', lit ''4''), (lit ''scene'', lit ''7'')]" "lit ''4''" "lit ''7''" fs_demo]
  by (simp add: eval_defs)

text \<open>
  The claim as the specification states it fails: no scene file exists for an act of
  300 letters, and the answer is not 404 but 500, because \<open>exists()\<close> raises.
\<close>

lemma long_act_refused:
  "path_exists fs_demo (scene_path long_act (lit ''1'')) = Inl (OSError ENAMETOOLONG)"
proof (rule long_name_refused)
  show "\<forall>c\<in>set long_act \<union> set (lit ''1''). 0 < c \<and> c < 128 \<and> c \<noteq> 47"
    by (auto simp: long_act_def lit_def)
  show "lookup (root fs_demo) (cwd fs_demo) = Some (Dir srv_demo)"
    by (simp add: fs_demo_def)
  show "map_of srv_demo (lit ''scenes'') = Some (Dir scenes_demo)"
    by (simp add: srv_demo_def lit_def)
  show "237 < length long_act + length (lit ''1'')"
    by (simp add: long_act_def)
  show "length long_act + length (lit ''1'') < 4000"
    by (simp add: long_act_def lit_def)
qed

theorem long_act_counterexample:
  "lookup (root fs_demo)
     [lit ''srv'', lit ''scenes'', scene_filename long_act (lit ''1'')] = None \<and>
   api_scene fs_demo [(lit ''act'', long_act), (lit ''scene'', lit ''1'')] =
     Response 500 (error_body (lit ''Failed to load scene''))"
proof
  have len: "length (scene_filename long_act (lit ''1'')) = 319"
    by (simp add: scene_filename_def long_act_def lit_def)
  have "scene_filename long_act (lit ''1'') \<noteq> k" if "length k < 30" for k
    using len that by auto
  then have "map_of scenes_demo (scene_filename long_act (lit ''1'')) = None"
    by (simp add: scenes_demo_def lit_def)
  then show "lookup (root fs_demo)
      [lit ''srv'', lit ''scenes'', scene_filename long_act (lit ''1'')] = None"
    by (simp add: fs_demo_def srv_demo_def lit_def)
  have ne: "long_act \<noteq> []" "lit ''1'' \<noteq> []"
    by (simp_all add: long_act_def lit_def)
  have m: "map_of [(lit ''act'', long_act), (lit ''scene'', lit ''1'')] (lit ''act'') =
      Some long_act"
    "map_of [(lit ''act'', long_act), (lit ''scene'', lit ''1'')] (lit ''scene'') =
      Some (lit ''1'')"
    by (simp_all add: lit_def)
  have l: "load_scene_text fs_demo long_act (lit ''1'') = Inl (OSError ENAMETOOLONG)"
    by (rule load_raises [OF long_act_refused])
  show "api_scene fs_demo [(lit ''act'', long_act), (lit ''scene'', lit ''1'')] =
      Response 500 (error_body (lit ''Failed to load scene''))"
    unfolding api_scene_def scene_view_def m
    by (simp add: flask_dispatch_def l ne)
qed

section \<open>Loading a scene\<close>

text \<open>
  Claim C4, as the code has it. For every pair of identifiers:

  \<^item> the path is the text \<open>scenes/lear_act<act>_scene<scene>.txt\<close> as pathlib reads
    it, cut at the separators with the empty and the \<open>.\<close> components dropped; for
    identifiers without a separator, \<open>str(path)\<close> is that text itself;
  \<^item> \<open>load_scene_text\<close> raises \<open>FileNotFoundError\<close> exactly when \<open>Path.exists()\<close>
    returns \<open>False\<close>, that is when \<open>stat\<close> finds nothing at the path; when the
    operating system refuses the path as too long, \<open>exists()\<close> raises and so does
    \<open>load_scene_text\<close>, with \<open>OSError\<close>;
  \<^item> when a regular file is there, it raises \<open>UnicodeDecodeError\<close> if the bytes are
    not UTF-8, and otherwise returns the decoded text with \<open>\r\n\<close> and \<open>\r\<close> turned
    into \<open>\n\<close>; for a file without a carriage return that text is unchanged and
    encodes to the very bytes of the file.
\<close>

theorem load_scene_text_spec:
  "scene_path act scene =
     filter (\<lambda>x. x \<noteq> [] \<and> x \<noteq> lit ''.'')
       (split 47 (lit ''scenes/lear_act'' @ act @ lit ''_scene'' @ scene @ lit ''.txt'')) \<and>
   (47 \<notin> set act \<and> 47 \<notin> set scene \<longrightarrow>
      path_str (scene_path act scene) =
        lit ''scenes/lear_act'' @ act @ lit ''_scene'' @ scene @ lit ''.txt'') \<and>
   ((\<exists>m. load_scene_text fs act scene = Inl (FileNotFoundError m)) \<longleftrightarrow>
      stat fs (scene_path act scene) \<in>
        {Inl ValueError, Inl (OSError ENOENT), Inl (OSError ENOTDIR)}) \<and>
   (stat fs (scene_path act scene) = Inl (OSError ENAMETOOLONG) \<longrightarrow>
      load_scene_text fs act scene = Inl (OSError ENAMETOOLONG)) \<and>
   (stat fs (scene_path act scene) = Inr (File bs) \<longrightarrow>
      (case utf8_decode (map of_char bs) of
         None \<Rightarrow> load_scene_text fs act scene = Inl UnicodeDecodeError
       | Some t \<Rightarrow>
           load_scene_text fs act scene = Inr (universal_newlines t) \<and>
           (CR \<notin> set bs \<longrightarrow> universal_newlines t = t \<and> str_encode t = Some bs)))"
proof (intro conjI impI)
  show "scene_path act scene =
     filter (\<lambda>x. x \<noteq> [] \<and> x \<noteq> lit ''.'')
       (split 47 (lit ''scenes/lear_act'' @ act @ lit ''_scene'' @ scene @ lit ''.txt''))"
    by (simp add: path_div_def SCENE_DIR_def scene_filename_def lit_def)
next
  assume "47 \<notin> set act \<and> 47 \<notin> set scene"
  then show "path_str (scene_path act scene) =
      lit ''scenes/lear_act'' @ act @ lit ''_scene'' @ scene @ lit ''.txt''"
    by (simp add: path_str_plain)
next
  let ?p = "scene_path act scene"
  show "(\<exists>m. load_scene_text fs act scene = Inl (FileNotFoundError m)) \<longleftrightarrow>
      stat fs ?p \<in> {Inl ValueError, Inl (OSError ENOENT), Inl (OSError ENOTDIR)}"
    unfolding exists_false_iff [symmetric]
  proof (cases "path_exists fs ?p")
    case (Inl e)
    then show "(\<exists>m. load_scene_text fs act scene = Inl (FileNotFoundError m)) \<longleftrightarrow>
        path_exists fs ?p = Inr False"
      using exists_raises_iff [of fs ?p e] by (simp add: load_raises)
  next
    case (Inr b)
    then show "(\<exists>m. load_scene_text fs act scene = Inl (FileNotFoundError m)) \<longleftrightarrow>
        path_exists fs ?p = Inr False"
      by (cases b) (simp_all add: load_found load_missing read_text_not_missing)
  qed
next
  assume "stat fs (scene_path act scene) = Inl (OSError ENAMETOOLONG)"
  then have "path_exists fs (scene_path act scene) = Inl (OSError ENAMETOOLONG)"
    by (simp add: exists_raises_iff)
  then show "load_scene_text fs act scene = Inl (OSError ENAMETOOLONG)"
    by (rule load_raises)
next
  assume a: "stat fs (scene_path act scene) = Inr (File bs)"
  then have e: "path_exists fs (scene_path act scene) = Inr True"
    by (rule exists_of_stat)
  show "case utf8_decode (map of_char bs) of
         None \<Rightarrow> load_scene_text fs act scene = Inl UnicodeDecodeError
       | Some t \<Rightarrow>
           load_scene_text fs act scene = Inr (universal_newlines t) \<and>
           (CR \<notin> set bs \<longrightarrow> universal_newlines t = t \<and> str_encode t = Some bs)"
  proof (cases "utf8_decode (map of_char bs)")
    case None
    with a e show ?thesis
      by (simp add: load_found read_text_def)
  next
    case (Some t)
    have "load_scene_text fs act scene = Inr (universal_newlines t)"
      using a e Some by (simp add: load_found read_text_file)
    moreover have "universal_newlines t = t" if "CR \<notin> set bs"
      using no_cr_decoded [OF Some that] by (rule universal_newlines_id)
    moreover have "str_encode t = Some bs"
      using Some by (rule str_encode_decoded)
    ultimately show ?thesis
      using Some by simp
  qed
qed

lemma long_act_stat:
  "stat fs_demo (scene_path long_act (lit ''1'')) = Inl (OSError ENAMETOOLONG)"
  using long_act_refused by (simp add: exists_raises_iff)

theorem load_scene_text_spec_witness:
  "path_str (scene_path (lit ''1'') (lit ''1'')) = lit ''scenes/lear_act1_scene1.txt'' \<and>
   (\<nexists>m. load_scene_text fs_demo (lit ''1'') (lit ''1'') = Inl (FileNotFoundError m)) \<and>
   load_scene_text fs_demo (lit ''1'') (lit ''1'') =
     Inr (lit ''Blow, winds,'' @ NL @ lit ''and crack'' @ NL) \<and>
   str_encode (lit ''Blow, winds,'' @ NL @ lit ''and crack'' @ NL) =
     Some (''Blow, winds,'' @ [LF] @ ''and crack'' @ [LF]) \<and>
   (\<exists>m. load_scene_text fs_demo (lit ''3'') (lit ''4'') = Inl (FileNotFoundError m)) \<and>
   load_scene_text fs_demo long_act (lit ''1'') = Inl (OSError ENAMETOOLONG)"
  using load_scene_text_spec
    [of "lit ''1''" "lit ''1''" fs_demo "''Blow, winds,'' @ [LF] @ ''and crack'' @ [LF]"]
    load_scene_text_spec [of "lit ''3''" "lit ''4''" fs_demo "[]"]
    load_scene_text_spec [of long_act "lit ''1''" fs_demo "[]"] long_act_stat
  by (simp add: eval_defs str_encode_def char_of_eq_iff)

text \<open>
  The claim as the specification states it fails: the scene of act 3, scene 6 exists
  and holds a carriage return; what is returned has a line feed in its place and is
  not the contents of the file.
\<close>

theorem load_scene_text_cr_counterexample:
  "stat fs_demo (scene_path (lit ''3'') (lit ''6'')) = Inr (File (''Blow'' @ [CR] @ ''winds'')) \<and>
   load_scene_text fs_demo (lit ''3'') (lit ''6'') = Inr (lit ''Blow'' @ NL @ lit ''winds'') \<and>
   str_encode (lit ''Blow'' @ NL @ lit ''winds'') \<noteq> Some (''Blow'' @ [CR] @ ''winds'')"
  by (simp add: eval_defs str_encode_def char_of_eq_iff)

section \<open>\<open>GET /api/scene\<close> on an existing file\<close>

text \<open>
  Claim C3, as the code has it. With \<open>act\<close> and \<open>scene\<close> given and not empty, and a
  regular file at the path whose bytes are UTF-8, the answer is 200 with the body
  \<open>{"text": t}\<close>, where \<open>t\<close> is the decoded text with \<open>\r\n\<close> and \<open>\r\<close> turned into
  \<open>\n\<close>. When the file has no carriage return, \<open>t\<close> is the contents byte for byte:
  encoding \<open>t\<close> gives the bytes of the file.
\<close>

theorem scene_round_trip:
  assumes "map_of args (lit ''act'') = Some a" and "map_of args (lit ''scene'') = Some s"
    and "a \<noteq> []" and "s \<noteq> []"
    and "stat fs (scene_path a s) = Inr (File bs)"
    and "utf8_decode (map of_char bs) = Some t"
  shows "api_scene fs args =
           Response 200 (JsonBody (JObj [(lit ''text'', JStr (universal_newlines t))])) \<and>
         (CR \<notin> set bs \<longrightarrow> universal_newlines t = t \<and> str_encode t = Some bs)"
proof
  have "load_scene_text fs a s = Inr (universal_newlines t)"
    using assms(5,6) by (simp add: load_found exists_of_stat read_text_file)
  with assms(1-4) show "api_scene fs args =
      Response 200 (JsonBody (JObj [(lit ''text'', JStr (universal_newlines t))]))"
    by (simp add: api_scene_def scene_view_def flask_dispatch_def)
  show "CR \<notin> set bs \<longrightarrow> universal_newlines t = t \<and> str_encode t = Some bs"
    using no_cr_decoded [OF assms(6)] universal_newlines_id str_encode_decoded [OF assms(6)]
    by blast
qed

theorem scene_round_trip_witness:
  "api_scene fs_demo [(lit ''act'', lit ''1''), (lit ''scene'', lit ''1'')] =
     Response 200 (JsonBody (JObj
       [(lit ''text'', JStr (lit ''Blow, winds,'' @ NL @ lit ''and crack'' @ NL))])) \<and>
   str_encode (lit ''Blow, winds,'' @ NL @ lit ''and crack'' @ NL) =
     Some (''Blow, winds,'' @ [LF] @ ''and crack'' @ [LF])"
  using scene_round_trip
    [of "[(lit ''act'', lit ''1''), (lit ''scene'', lit ''1'')]" "lit ''1''" "lit ''1''" fs_demo
      "''Blow, winds,'' @ [LF] @ ''and crack'' @ [LF]"
      "lit ''Blow, winds,'' @ NL @ lit ''and crack'' @ NL"]
  by (simp add: eval_defs str_encode_def char_of_eq_iff)

text \<open>
  The claim as the specification states it fails: the scene of act 3, scene 2 exists
  and is UTF-8 with the line ends \<open>\r\n\<close>; the text in the answer has \<open>\n\<close> alone, so
  it is not the contents byte for byte. A scene that is not UTF-8 is answered with 500.
\<close>

theorem scene_crlf_counterexample:
  "stat fs_demo (scene_path (lit ''3'') (lit ''2'')) =
     Inr (File (''Blow, winds,'' @ [CR, LF] @ ''and crack'')) \<and>
   api_scene fs_demo [(lit ''act'', lit ''3''), (lit ''scene'', lit ''2'')] =
     Response 200 (JsonBody (JObj [(lit ''text'', JStr (lit ''Blow, winds,'' @ NL @ lit ''and crack''))])) \<and>
   str_encode (lit ''Blow, winds,'' @ NL @ lit ''and crack'') \<noteq>
     Some (''Blow, winds,'' @ [CR, LF] @ ''and crack'')"
  by (simp add: eval_defs str_encode_def char_of_eq_iff)

lemma latin1_scene_is_500:
  "api_scene fs_demo [(lit ''act'', lit ''5''), (lit ''scene'', lit ''3'')] =
     Response 500 (error_body (lit ''Failed to load scene''))"
  by (simp add: eval_defs)

section \<open>Identifiers with separators\<close>

lemma traversal_path:
  "scene_path (lit ''/../../other'') (lit ''1'') =
     [lit ''scenes'', lit ''lear_act'', lit ''..'', lit ''..'', lit ''other_scene1.txt'']"
  by (simp add: path_div_def SCENE_DIR_def scene_filename_def lit_def)

text \<open>
  Claim C8, as the code has it. The identifiers go into the file name as they are. With
  the act \<open>/../../other\<close> the path is \<open>scenes/lear_act/../../other_scene1.txt\<close>: when
  \<open>scenes/lear_act\<close> is a directory and the working directory holds a file
  \<open>other_scene1.txt\<close> in UTF-8, the path resolves to that file, which is not under
  \<open>scenes\<close>, and \<open>GET /api/scene\<close> answers 200 with its text.
\<close>

theorem scene_path_traversal:
  assumes "lookup (root fs) (cwd fs) = Some (Dir ws)"
    and "map_of ws (lit ''scenes'') = Some (Dir ss)"
    and "map_of ss (lit ''lear_act'') = Some (Dir ls)"
    and "map_of ws (lit ''other_scene1.txt'') = Some (File bs)"
    and "utf8_decode (map of_char bs) = Some t"
  shows "resolve fs (scene_path (lit ''/../../other'') (lit ''1'')) =
           Inr (cwd fs @ [lit ''other_scene1.txt'']) \<and>
         \<not> prefix (cwd fs @ [lit ''scenes'']) (cwd fs @ [lit ''other_scene1.txt'']) \<and>
         api_scene fs [(lit ''act'', lit ''/../../other''), (lit ''scene'', lit ''1'')] =
           Response 200 (JsonBody (JObj [(lit ''text'', JStr (universal_newlines t))]))"
proof (intro conjI)
  let ?p = "scene_path (lit ''/../../other'') (lit ''1'')"
  have l1: "lookup (root fs) (cwd fs @ [lit ''scenes'']) = Some (Dir ss)"
    by (simp add: lookup_snoc assms(1,2))
  have l2: "lookup (root fs) (cwd fs @ [lit ''scenes'', lit ''lear_act'']) = Some (Dir ls)"
    using lookup_snoc [of "root fs" "cwd fs @ [lit ''scenes'']" "lit ''lear_act''"]
    by (simp add: l1 assms(3))
  have l3: "lookup (root fs) (cwd fs @ [lit ''other_scene1.txt'']) = Some (File bs)"
    by (simp add: lookup_snoc assms(1,4))
  have ne: "lit ''scenes'' \<noteq> lit ''..''" "lit ''lear_act'' \<noteq> lit ''..''"
    "lit ''other_scene1.txt'' \<noteq> lit ''..''"
    by (simp_all add: lit_def)
  have nb: "\<not> NAME_MAX < nbytes (lit ''scenes'')" "\<not> NAME_MAX < nbytes (lit ''lear_act'')"
    "\<not> NAME_MAX < nbytes (lit ''other_scene1.txt'')"
    by (simp_all add: nbytes_ascii lit_def NAME_MAX_def)
  show r: "resolve fs ?p = Inr (cwd fs @ [lit ''other_scene1.txt''])"
    unfolding traversal_path resolve_def
    by (simp add: assms(1,2,3,4) l1 l2 ne nb butlast_append)
  show "\<not> prefix (cwd fs @ [lit ''scenes'']) (cwd fs @ [lit ''other_scene1.txt''])"
    by (simp add: lit_def)
  have enc: "fsencode (path_str ?p) = Some (lit ''scenes/lear_act/../../other_scene1.txt'')"
    unfolding traversal_path
    by (simp add: path_str_def lit_def fsencode1_def utf8_encode1_def)
  have g: "0 \<notin> set (lit ''scenes/lear_act/../../other_scene1.txt'')"
    "\<not> PATH_MAX \<le> length (lit ''scenes/lear_act/../../other_scene1.txt'')"
    by (simp_all add: lit_def PATH_MAX_def)
  have st: "stat fs ?p = Inr (File bs)"
    unfolding stat_def enc r using g by (simp add: l3)
  have "load_scene_text fs (lit ''/../../other'') (lit ''1'') = Inr (universal_newlines t)"
    using st assms(5) by (simp add: load_found exists_of_stat read_text_file)
  then show "api_scene fs [(lit ''act'', lit ''/../../other''), (lit ''scene'', lit ''1'')] =
           Response 200 (JsonBody (JObj [(lit ''text'', JStr (universal_newlines t))]))"
    by (simp add: api_scene_def scene_view_def flask_dispatch_def lit_def)
qed

theorem scene_path_traversal_witness:
  "resolve fs_demo (scene_path (lit ''/../../other'') (lit ''1'')) =
     Inr [lit ''srv'', lit ''other_scene1.txt''] \<and>
   \<not> prefix [lit ''srv'', lit ''scenes''] [lit ''srv'', lit ''other_scene1.txt''] \<and>
   api_scene fs_demo [(lit ''act'', lit ''/../../other''), (lit ''scene'', lit ''1'')] =
     Response 200 (JsonBody (JObj [(lit ''text'', JStr (lit ''secret''))]))"
  using scene_path_traversal [of fs_demo srv_demo scenes_demo "[]" "''secret''" "lit ''secret''"]
  by (simp add: eval_defs)

text \<open>
  The example of the claim fails. With the act \<open>../other\<close> the first component of the
  file name is \<open>lear_act..\<close>, the name of an entry of \<open>scenes\<close> and not the parent
  directory: the file \<open>other_scene1.txt\<close> beside \<open>scenes\<close> is not served, the answer
  is 404. On every file system, a path without a component \<open>..\<close> resolves below the
  directory it starts from.
\<close>

theorem dotted_act_counterexample:
  "scene_path (lit ''../other'') (lit ''1'') =
     [lit ''scenes'', lit ''lear_act..'', lit ''other_scene1.txt''] \<and>
   lookup (root fs_demo) [lit ''srv'', lit ''other_scene1.txt''] = Some (File ''secret'') \<and>
   api_scene fs_demo [(lit ''act'', lit ''../other''), (lit ''scene'', lit ''1'')] =
     Response 404 (error_body (lit ''No scene file: scenes/lear_act../other_scene1.txt''))"
  by (simp add: eval_defs)

lemma walk_without_parent:
  "lit ''..'' \<notin> set cs \<Longrightarrow> walk r loc cs = Inr loc' \<Longrightarrow> loc' = loc @ cs"
proof (induction cs arbitrary: loc)
  case Nil
  then show ?case by simp
next
  case (Cons c cs)
  from Cons.prems have "walk r (loc @ [c]) cs = Inr loc'"
    by (auto split: option.splits node.splits if_splits)
  with Cons.IH [of "loc @ [c]"] Cons.prems(1) show ?case by simp
qed

lemma dotted_act_stays_inside:
  assumes "resolve fs (scene_path (lit ''../other'') (lit ''1'')) = Inr loc"
  shows "prefix (cwd fs @ [lit ''scenes'']) loc"
proof -
  have p: "scene_path (lit ''../other'') (lit ''1'') =
      [lit ''scenes'', lit ''lear_act..'', lit ''other_scene1.txt'']"
    by (simp add: path_div_def SCENE_DIR_def scene_filename_def lit_def)
  have "lit ''..'' \<notin> set [lit ''scenes'', lit ''lear_act..'', lit ''other_scene1.txt'']"
    by (simp add: lit_def)
  from walk_without_parent [OF this] assms
  have "loc = cwd fs @ [lit ''scenes'', lit ''lear_act..'', lit ''other_scene1.txt'']"
    unfolding p resolve_def by blast
  then show ?thesis
    by (simp add: prefix_def)
qed

end
